theory Spec2Isabelle
  imports Complex_Main
begin

section \<open>The distributed table of core/table/distributed_table.h\<close>

text \<open>
  The class \<open>core::table::DistributedTable\<close> composes the table a process owns, its two
  mailboxes, the array of entry counts gathered from every process and the tree built on
  the points. The model keeps the field names of the class, each followed by a prime (a
  name may not end in an underscore). A handle (\<open>boost::interprocess::offset_ptr\<close>)
  is an \<open>option\<close>: \<open>None\<close> is the null handle and \<open>Some x\<close> a handle to the
  object \<open>x\<close>, which the table owns alone (the class is \<open>boost::noncopyable\<close>).
\<close>

subsection \<open>Collaborators declared in headers that are not part of the sources\<close>

text \<open>
  A dense point is a fixed-length vector of doubles. No arithmetic is done on the
  coordinates here, they are copied and compared only, so a coordinate is a \<open>real\<close>.
\<close>

type_synonym DensePoint = "real list"

text \<open>
  Modelled from the spec: core/table/table.h (\<open>core::table::Table\<close>) is missing. The
  spec's Local Partition Table is the ordered set of points a process owns, with an
  attribute count shared by the whole table and an entry count.
\<close>

record Table =
  points :: "DensePoint list"
  n_attributes :: int

definition n_entries :: "Table \<Rightarrow> int" where
  "n_entries tbl = int (length (points tbl))"

text \<open>
  Modelled from the spec: core/table/mailbox.h (\<open>TableInbox\<close>, \<open>TableOutbox\<close>) is
  missing. The inbox keeps the staged points in a retained buffer, keyed by a rank and a
  point id; \<open>TableInbox::Init\<close> receives the attribute count. Nothing is known of the
  state of the outbox.
\<close>

record TableInbox =
  inbox_n_attributes :: int
  staged :: "((int \<times> int) \<times> DensePoint) list"

definition TableInbox_new :: TableInbox where
  "TableInbox_new = \<lparr>inbox_n_attributes = 0, staged = []\<rparr>"

definition TableInbox_Init :: "int \<Rightarrow> TableInbox \<Rightarrow> TableInbox" where
  "TableInbox_Init n inbox = inbox\<lparr>inbox_n_attributes := n\<rparr>"

datatype TableOutbox = TableOutbox_new

text \<open>
  The tree type (core/tree/gen_metric_tree.h, missing) is a binary space tree; the table
  only holds a handle to its root.
\<close>

datatype TreeType = TreeLeaf | TreeNode TreeType TreeType

subsection \<open>Errors and outcomes\<close>

text \<open>
  What a call can do other than return: dereference a null handle or read outside an
  array (undefined behaviour in C++, kept apart as errors of the model), fail with the
  spec's \<open>IndexOutOfRange\<close>, read a key of the inbox at which nothing is staged, or wait
  on a receive for ever.
\<close>

datatype error = NullDereference | OutOfBoundsRead | IndexOutOfRange | NothingStaged

datatype 'a outcome = Returns 'a | Fatal error | Blocks

subsection \<open>The class and its constructor\<close>

record DistributedTable =
  table_inbox_' :: "TableInbox option"
  table_outbox_' :: "TableOutbox option"
  owned_table_' :: "Table option"
  local_n_entries_' :: "int list option"
  global_tree_' :: "TreeType option"
  global_tree_leaf_nodes_' :: "TreeType list"
  table_outbox_group_comm_size_' :: int

definition DistributedTable_new :: DistributedTable where
  "DistributedTable_new =
     \<lparr>table_inbox_' = None,
      table_outbox_' = None,
      owned_table_' = None,
      local_n_entries_' = None,
      global_tree_' = None,
      global_tree_leaf_nodes_' = [],
      table_outbox_group_comm_size_' = - 1\<rparr>"

definition IsIndexed :: "DistributedTable \<Rightarrow> bool" where
  "IsIndexed t = (global_tree_' t \<noteq> None)"

definition get_tree :: "DistributedTable \<Rightarrow> TreeType option" where
  "get_tree t = global_tree_' t"

subsection \<open>Entry counts\<close>

text \<open>
  \<open>local_n_entries(rank_in)\<close> prints a line and returns \<open>-1\<close> when the rank is not below
  the size of the group; otherwise it reads the gathered array. The printed line is kept
  as a diagnostic with the two numbers it shows. The read is written out: the array may
  be null and a negative rank reads before its start.
\<close>

datatype diagnostic = Invalid_rank_specified int int

definition local_n_entries :: "DistributedTable \<Rightarrow> int \<Rightarrow> (diagnostic list \<times> int) outcome" where
  "local_n_entries t rank_in =
     (if rank_in \<ge> table_outbox_group_comm_size_' t then
        Returns ([Invalid_rank_specified rank_in (table_outbox_group_comm_size_' t)], - 1)
      else
        (case local_n_entries_' t of
           None \<Rightarrow> Fatal NullDereference
         | Some a \<Rightarrow>
             if 0 \<le> rank_in \<and> nat rank_in < length a then Returns ([], a ! nat rank_in)
             else Fatal OutOfBoundsRead))"

text \<open>The overload without a rank asks the owned table.\<close>

definition local_n_entries_self :: "DistributedTable \<Rightarrow> int outcome" where
  "local_n_entries_self t =
     (case owned_table_' t of None \<Rightarrow> Fatal NullDereference | Some tbl \<Rightarrow> Returns (n_entries tbl))"

subsection \<open>Save and IndexData\<close>

text \<open>
  Both bodies are empty. \<open>Save\<close> is a const method: it is given the table and the files
  of the process (file name to the saved points) and returns both. \<open>IndexData\<close> returns
  the table. The metric is a reference to an abstract class and is not used; its type is
  left open.
\<close>

type_synonym files = "string \<Rightarrow> DensePoint list option"

definition Save :: "string \<Rightarrow> DistributedTable \<times> files \<Rightarrow> DistributedTable \<times> files" where
  "Save file_name s = s"

definition IndexData :: "'metric \<Rightarrow> real \<Rightarrow> DistributedTable \<Rightarrow> DistributedTable" where
  "IndexData metric_in sample_probability_in t = t"

subsection \<open>Communicators and the calls made on them\<close>

text \<open>
  A \<open>boost::mpi::communicator\<close> is known to the class by its \<open>rank()\<close> and \<open>size()\<close>;
  \<open>comm_id\<close> tells one communicator from another. The tags are the two enumerators of
  \<open>DistributedTableMessage\<close> that the class uses, and a \<open>PointRequestMessage\<close> is built
  from the rank of the sender and a point id.
\<close>

record communicator =
  comm_id :: nat
  rank :: int
  size_c :: int

datatype DistributedTableMessage =
  REQUEST_POINT_FROM_TABLE_OUTBOX | RECEIVE_POINT_FROM_TABLE_INBOX

datatype PointRequestMessage = PointRequestMessage int int

text \<open>
  The world of one process: the calls it has made on its communicators, oldest first, and
  the messages that have arrived for it and that no receive has taken yet, each with its
  communicator, the rank it comes from and its tag. \<open>send\<close> adds its call. \<open>recv\<close> adds
  its call and takes the first message of that communicator, source and tag; with no such
  message it does not return.
\<close>

datatype mpi_call =
  Send nat int DistributedTableMessage PointRequestMessage
  | Recv nat int DistributedTableMessage

record world =
  calls :: "mpi_call list"
  arrived :: "(nat \<times> int \<times> DistributedTableMessage) list"

definition send :: "communicator \<Rightarrow> int \<Rightarrow> DistributedTableMessage \<Rightarrow> PointRequestMessage \<Rightarrow> world \<Rightarrow> world" where
  "send comm dest tag msg w = w\<lparr>calls := calls w @ [Send (comm_id comm) dest tag msg]\<rparr>"

definition recv :: "communicator \<Rightarrow> int \<Rightarrow> DistributedTableMessage \<Rightarrow> world \<Rightarrow> bool \<times> world" where
  "recv comm source tag w =
     (let w' = w\<lparr>calls := calls w @ [Recv (comm_id comm) source tag]\<rparr>
      in if (comm_id comm, source, tag) \<in> set (arrived w')
         then (True, w'\<lparr>arrived := remove1 (comm_id comm, source, tag) (arrived w')\<rparr>)
         else (False, w'))"

text \<open>
  \<open>boost::mpi::all_gather\<close> writes at index \<open>r\<close> of the output, for every rank \<open>r\<close> of
  the group, the value that rank \<open>r\<close> passed in. \<open>in_values\<close> gives the values of the
  other ranks; the calling rank's own value is its argument.
\<close>

definition all_gather :: "communicator \<Rightarrow> (int \<Rightarrow> int) \<Rightarrow> int \<Rightarrow> int list" where
  "all_gather comm in_values in_value =
     map (\<lambda>r. if int r = rank comm then in_value else in_values (int r))
       [0..<nat (size_c comm)]"

subsection \<open>Init\<close>

text \<open>
  \<open>global_m_file_'\<close> says whether the global \<open>core::table::global_m_file_\<close> is non-null.
  The owned table is constructed in the memory-mapped file or with \<open>new\<close>; the two
  mailboxes are constructed through \<open>global_m_file_\<close> with no test, which dereferences a
  null pointer when there is none. \<open>load\<close> stands for \<open>Table::Init\<close> (table.h, missing):
  the table that a file name loads.
\<close>

definition Init :: "bool \<Rightarrow> (string \<Rightarrow> Table) \<Rightarrow> (int \<Rightarrow> int) \<Rightarrow> string \<Rightarrow> communicator
    \<Rightarrow> DistributedTable \<Rightarrow> DistributedTable outcome" where
  "Init global_m_file_' load in_values file_name table_outbox_group_communicator_in t =
     (let t1 = t\<lparr>owned_table_' := Some (load file_name)\<rparr>
      in if \<not> global_m_file_' then Fatal NullDereference
         else
           (let t2 = t1\<lparr>table_outbox_' := Some TableOutbox_new\<rparr>;
                t3 = t2\<lparr>table_inbox_' :=
                          Some (TableInbox_Init (n_attributes (load file_name)) TableInbox_new)\<rparr>;
                t4 = t3\<lparr>table_outbox_group_comm_size_' :=
                          size_c table_outbox_group_communicator_in\<rparr>;
                t5 = t4\<lparr>local_n_entries_' :=
                          Some (all_gather table_outbox_group_communicator_in in_values
                                  (n_entries (load file_name)))\<rparr>
            in Returns t5))"

text \<open>
  A job of \<open>length file_names\<close> processes, where the process of rank \<open>r\<close> constructs a
  table and calls \<open>Init\<close> on the \<open>r\<close>-th file name: what the process of rank \<open>p\<close> gets.
  Every rank passes the entry count of the table it loaded to \<open>all_gather\<close>.
\<close>

definition Init_in_job :: "(string \<Rightarrow> Table) \<Rightarrow> string list \<Rightarrow> nat \<Rightarrow> DistributedTable outcome" where
  "Init_in_job load file_names p =
     Init True load (\<lambda>r. n_entries (load (file_names ! nat r))) (file_names ! p)
       \<lparr>comm_id = 0, rank = int p, size_c = int (length file_names)\<rparr> DistributedTable_new"

subsection \<open>The destructor\<close>

text \<open>
  The destructor releases up to five objects. Each release is recorded with the call that
  makes it: \<open>DestroyPtr\<close> and \<open>Deallocate\<close> of the memory-mapped file, \<open>delete[]\<close> and
  \<open>delete\<close>. The mailboxes are destroyed through \<open>global_m_file_\<close> with no test of that
  pointer.
\<close>

datatype handle = Table_outbox | Table_inbox | Local_n_entries | Owned_table | Global_tree

datatype release = DestroyPtr handle | Deallocate handle | Delete_array handle | Delete handle

fun released :: "release \<Rightarrow> handle" where
  "released (DestroyPtr h) = h"
| "released (Deallocate h) = h"
| "released (Delete_array h) = h"
| "released (Delete h) = h"

fun is_null :: "DistributedTable \<Rightarrow> handle \<Rightarrow> bool" where
  "is_null t Table_outbox = (table_outbox_' t = None)"
| "is_null t Table_inbox = (table_inbox_' t = None)"
| "is_null t Local_n_entries = (local_n_entries_' t = None)"
| "is_null t Owned_table = (owned_table_' t = None)"
| "is_null t Global_tree = (global_tree_' t = None)"

definition and_then :: "'a outcome \<Rightarrow> ('a \<Rightarrow> 'b outcome) \<Rightarrow> 'b outcome" where
  "and_then r f = (case r of Returns x \<Rightarrow> f x | Fatal e \<Rightarrow> Fatal e | Blocks \<Rightarrow> Blocks)"

definition destroy_table_outbox :: "bool \<Rightarrow> release list \<times> DistributedTable
    \<Rightarrow> (release list \<times> DistributedTable) outcome" where
  "destroy_table_outbox global_m_file_' s =
     (case s of (rs, t) \<Rightarrow>
        if table_outbox_' t \<noteq> None then
          (if global_m_file_'
           then Returns (rs @ [DestroyPtr Table_outbox], t\<lparr>table_outbox_' := None\<rparr>)
           else Fatal NullDereference)
        else Returns (rs, t))"

definition destroy_table_inbox :: "bool \<Rightarrow> release list \<times> DistributedTable
    \<Rightarrow> (release list \<times> DistributedTable) outcome" where
  "destroy_table_inbox global_m_file_' s =
     (case s of (rs, t) \<Rightarrow>
        if table_inbox_' t \<noteq> None then
          (if global_m_file_'
           then Returns (rs @ [DestroyPtr Table_inbox], t\<lparr>table_inbox_' := None\<rparr>)
           else Fatal NullDereference)
        else Returns (rs, t))"

definition delete_local_n_entries :: "bool \<Rightarrow> release list \<times> DistributedTable
    \<Rightarrow> (release list \<times> DistributedTable) outcome" where
  "delete_local_n_entries global_m_file_' s =
     (case s of (rs, t) \<Rightarrow>
        if local_n_entries_' t \<noteq> None then
          Returns (rs @ [if global_m_file_' then Deallocate Local_n_entries
                         else Delete_array Local_n_entries],
                   t\<lparr>local_n_entries_' := None\<rparr>)
        else Returns (rs, t))"

definition delete_owned_table :: "bool \<Rightarrow> release list \<times> DistributedTable
    \<Rightarrow> (release list \<times> DistributedTable) outcome" where
  "delete_owned_table global_m_file_' s =
     (case s of (rs, t) \<Rightarrow>
        if owned_table_' t \<noteq> None then
          Returns (rs @ [if global_m_file_' then DestroyPtr Owned_table else Delete Owned_table],
                   t\<lparr>owned_table_' := None\<rparr>)
        else Returns (rs, t))"

definition delete_global_tree :: "release list \<times> DistributedTable
    \<Rightarrow> (release list \<times> DistributedTable) outcome" where
  "delete_global_tree s =
     (case s of (rs, t) \<Rightarrow>
        if global_tree_' t \<noteq> None then
          Returns (rs @ [Delete Global_tree], t\<lparr>global_tree_' := None\<rparr>)
        else Returns (rs, t))"

definition destructor :: "bool \<Rightarrow> DistributedTable \<Rightarrow> (release list \<times> DistributedTable) outcome" where
  "destructor global_m_file_' t =
     and_then (and_then (and_then (and_then
       (destroy_table_outbox global_m_file_' ([], t))
       (destroy_table_inbox global_m_file_'))
       (delete_local_n_entries global_m_file_'))
       (delete_owned_table global_m_file_'))
       delete_global_tree"

subsection \<open>Reading a point\<close>

text \<open>
  Modelled from the spec: \<open>Table::get\<close> (table.h, missing). The spec's
  \<open>Get(point_id)\<close> of the Local Partition Table validates the point id against
  \<open>[0, EntryCount())\<close> before it dereferences and reports an id out of range as
  \<open>IndexOutOfRange\<close>.
\<close>

definition Table_get :: "Table \<Rightarrow> int \<Rightarrow> DensePoint outcome" where
  "Table_get tbl point_id =
     (if 0 \<le> point_id \<and> point_id < n_entries tbl then Returns (points tbl ! nat point_id)
      else Fatal IndexOutOfRange)"

text \<open>
  Modelled from the spec: \<open>TableInbox::get_point\<close> (mailbox.h, missing) and
  \<open>DenseConstPoint::Alias\<close> (missing). The staged buffer is looked up by its key, and the
  reply is a view of the staged storage with the attribute count that gives its shape.
  The spec does not say what \<open>get_point\<close> does at a key with nothing staged; the model
  keeps that case apart as \<open>NothingStaged\<close>.
\<close>

definition get_point :: "TableInbox \<Rightarrow> int \<Rightarrow> int \<Rightarrow> DensePoint option" where
  "get_point inbox rank_in point_id = map_of (staged inbox) (rank_in, point_id)"

definition Alias :: "DensePoint \<Rightarrow> int \<Rightarrow> DensePoint" where
  "Alias buf n = take (nat n) buf"

text \<open>
  \<open>DistributedTable::get\<close>. \<open>entry\<close> is the out-parameter: its value before the call is
  passed in, its value after the call is returned. The inbox is filled by the mailbox
  loops (mailbox.h), not by \<open>get\<close>: the table \<open>t\<close> holds the inbox as \<open>get\<close> reads it once
  the receive has returned.
\<close>

definition get :: "communicator \<Rightarrow> communicator \<Rightarrow> int \<Rightarrow> int \<Rightarrow> DensePoint
    \<Rightarrow> DistributedTable \<Rightarrow> world \<Rightarrow> DensePoint outcome \<times> world" where
  "get table_outbox_group_comm_in table_inbox_group_comm_in requested_rank point_id entry t w =
     (if rank table_outbox_group_comm_in = requested_rank then
        (case owned_table_' t of
           None \<Rightarrow> (Fatal NullDereference, w)
         | Some tbl \<Rightarrow> (Table_get tbl point_id, w))
      else if False then (Returns entry, w)
      else
        (let point_request_message =
               PointRequestMessage (rank table_outbox_group_comm_in) point_id;
             w1 = send table_outbox_group_comm_in requested_rank
                    REQUEST_POINT_FROM_TABLE_OUTBOX point_request_message w;
             (received, w2) = recv table_inbox_group_comm_in (rank table_outbox_group_comm_in)
                    RECEIVE_POINT_FROM_TABLE_INBOX w1
         in if \<not> received then (Blocks, w2)
            else
              (case (table_inbox_' t, owned_table_' t) of
                 (Some inbox, Some tbl) \<Rightarrow>
                   (case get_point inbox requested_rank point_id of
                      None \<Rightarrow> (Fatal NothingStaged, w2)
                    | Some buf \<Rightarrow> (Returns (Alias buf (n_attributes tbl)), w2))
               | _ \<Rightarrow> (Fatal NullDereference, w2))))"

section \<open>Properties\<close>

subsection \<open>Shared facts\<close>

lemmas destructor_defs = destructor_def and_then_def destroy_table_outbox_def
  destroy_table_inbox_def delete_local_n_entries_def delete_owned_table_def
  delete_global_tree_def

lemma destructor_Returns:
  "destructor g t = Returns (rs, t') \<Longrightarrow>
     t' = t\<lparr>table_outbox_' := None, table_inbox_' := None, local_n_entries_' := None,
            owned_table_' := None, global_tree_' := None\<rparr> \<and>
     map released rs = filter (\<lambda>h. \<not> is_null t h)
        [Table_outbox, Table_inbox, Local_n_entries, Owned_table, Global_tree]"
  by (auto simp: destructor_defs split: if_splits)

lemma Init_Returns:
  "Init g load in_values file_name comm t = Returns t' \<Longrightarrow>
     g \<and> global_tree_' t' = global_tree_' t \<and>
     table_outbox_group_comm_size_' t' = size_c comm \<and>
     owned_table_' t' = Some (load file_name) \<and>
     local_n_entries_' t' = Some (all_gather comm in_values (n_entries (load file_name)))"
  by (auto simp: Init_def Let_def split: if_splits)

subsection \<open>Indexing\<close>

text \<open>
  C1 (as amended). On a table that was constructed and on which \<open>Init\<close> has completed,
  \<open>IsIndexed()\<close> is false. \<open>IndexData\<close> has an empty body: it returns the table as it
  was, so \<open>IsIndexed()\<close> is still false after it and \<open>get_tree()\<close> is still null.
\<close>

theorem Init_then_IndexData_unindexed:
  "Init g load in_values file_name comm DistributedTable_new = Returns t \<Longrightarrow>
     \<not> IsIndexed t \<and>
     IndexData metric_in sample_probability_in t = t \<and>
     \<not> IsIndexed (IndexData metric_in sample_probability_in t) \<and>
     get_tree (IndexData metric_in sample_probability_in t) = None"
proof -
  assume init: "Init g load in_values file_name comm DistributedTable_new = Returns t"
  have "global_tree_' t = global_tree_' DistributedTable_new"
    using Init_Returns [OF init] by simp
  then have "global_tree_' t = None"
    by (simp add: DistributedTable_new_def)
  then show ?thesis
    by (simp add: IsIndexed_def IndexData_def get_tree_def)
qed

theorem Init_then_IndexData_unindexed_witness:
  "Init True (\<lambda>f. \<lparr>points = [[1, 2, 3]], n_attributes = 3\<rparr>) (\<lambda>r. 1) ''points''
      \<lparr>comm_id = 0, rank = 0, size_c = 1\<rparr> DistributedTable_new =
     Returns
       \<lparr>table_inbox_' = Some \<lparr>inbox_n_attributes = 3, staged = []\<rparr>,
        table_outbox_' = Some TableOutbox_new,
        owned_table_' = Some \<lparr>points = [[1, 2, 3]], n_attributes = 3\<rparr>,
        local_n_entries_' = Some [1],
        global_tree_' = None,
        global_tree_leaf_nodes_' = [],
        table_outbox_group_comm_size_' = 1\<rparr> \<and>
   \<not> IsIndexed
       \<lparr>table_inbox_' = Some \<lparr>inbox_n_attributes = 3, staged = []\<rparr>,
        table_outbox_' = Some TableOutbox_new,
        owned_table_' = Some \<lparr>points = [[1, 2, 3]], n_attributes = 3\<rparr>,
        local_n_entries_' = Some [1],
        global_tree_' = None,
        global_tree_leaf_nodes_' = [],
        table_outbox_group_comm_size_' = 1\<rparr>"
proof -
  have init:
    "Init True (\<lambda>f. \<lparr>points = [[1, 2, 3]], n_attributes = 3\<rparr>) (\<lambda>r. 1) ''points''
        \<lparr>comm_id = 0, rank = 0, size_c = 1\<rparr> DistributedTable_new =
       Returns
         \<lparr>table_inbox_' = Some \<lparr>inbox_n_attributes = 3, staged = []\<rparr>,
          table_outbox_' = Some TableOutbox_new,
          owned_table_' = Some \<lparr>points = [[1, 2, 3]], n_attributes = 3\<rparr>,
          local_n_entries_' = Some [1],
          global_tree_' = None,
          global_tree_leaf_nodes_' = [],
          table_outbox_group_comm_size_' = 1\<rparr>"
    by (simp add: Init_def Let_def DistributedTable_new_def TableInbox_Init_def
        TableInbox_new_def all_gather_def n_entries_def)
  show ?thesis
    using init
      Init_then_IndexData_unindexed
        [OF init, where metric_in = "()" and sample_probability_in = 0]
    by simp
qed

text \<open>
  The claim as it was stated fails: after \<open>Init\<close> and \<open>IndexData\<close> on one process with one
  point, \<open>IsIndexed()\<close> is false and the root is null.
\<close>

theorem IndexData_indexes_counterexample:
  "Init True (\<lambda>f. \<lparr>points = [[1, 2, 3]], n_attributes = 3\<rparr>) (\<lambda>r. 1) ''points''
      \<lparr>comm_id = 0, rank = 0, size_c = 1\<rparr> DistributedTable_new =
     Returns
       \<lparr>table_inbox_' = Some \<lparr>inbox_n_attributes = 3, staged = []\<rparr>,
        table_outbox_' = Some TableOutbox_new,
        owned_table_' = Some \<lparr>points = [[1, 2, 3]], n_attributes = 3\<rparr>,
        local_n_entries_' = Some [1],
        global_tree_' = None,
        global_tree_leaf_nodes_' = [],
        table_outbox_group_comm_size_' = 1\<rparr> \<and>
   \<not> (IsIndexed (IndexData () (1 / 2)
         \<lparr>table_inbox_' = Some \<lparr>inbox_n_attributes = 3, staged = []\<rparr>,
          table_outbox_' = Some TableOutbox_new,
          owned_table_' = Some \<lparr>points = [[1, 2, 3]], n_attributes = 3\<rparr>,
          local_n_entries_' = Some [1],
          global_tree_' = None,
          global_tree_leaf_nodes_' = [],
          table_outbox_group_comm_size_' = 1\<rparr>) \<and>
       get_tree (IndexData () (1 / 2)
         \<lparr>table_inbox_' = Some \<lparr>inbox_n_attributes = 3, staged = []\<rparr>,
          table_outbox_' = Some TableOutbox_new,
          owned_table_' = Some \<lparr>points = [[1, 2, 3]], n_attributes = 3\<rparr>,
          local_n_entries_' = Some [1],
          global_tree_' = None,
          global_tree_leaf_nodes_' = [],
          table_outbox_group_comm_size_' = 1\<rparr>) \<noteq> None)"
  by (simp add: Init_def Let_def DistributedTable_new_def TableInbox_Init_def
      TableInbox_new_def all_gather_def n_entries_def IsIndexed_def IndexData_def)

subsection \<open>Reading a point of another process\<close>

text \<open>
  C2 (as amended). A \<open>get\<close> whose requested rank is not the rank of the caller builds a
  \<open>PointRequestMessage\<close> of the caller's rank and the point id, sends it to the requested
  rank on the outbox communicator with the tag \<open>REQUEST_POINT_FROM_TABLE_OUTBOX\<close>, then
  receives on the inbox communicator with the tag \<open>RECEIVE_POINT_FROM_TABLE_INBOX\<close> from
  the caller's own rank in the outbox communicator (not from the requested rank). With no
  such message it stays in the receive; with one it takes it and only then aliases the
  buffer staged in its inbox for the requested rank and point id.
\<close>

theorem get_remote_exchange:
  "rank oc \<noteq> requested_rank \<Longrightarrow>
   get oc ic requested_rank point_id entry t w =
     (if (comm_id ic, rank oc, RECEIVE_POINT_FROM_TABLE_INBOX) \<in> set (arrived w)
      then
        ((case (table_inbox_' t, owned_table_' t) of
            (Some inbox, Some tbl) \<Rightarrow>
              (case get_point inbox requested_rank point_id of
                 None \<Rightarrow> Fatal NothingStaged
               | Some buf \<Rightarrow> Returns (Alias buf (n_attributes tbl)))
          | _ \<Rightarrow> Fatal NullDereference),
         w\<lparr>calls := calls w @
              [Send (comm_id oc) requested_rank REQUEST_POINT_FROM_TABLE_OUTBOX
                 (PointRequestMessage (rank oc) point_id),
               Recv (comm_id ic) (rank oc) RECEIVE_POINT_FROM_TABLE_INBOX],
           arrived := remove1 (comm_id ic, rank oc, RECEIVE_POINT_FROM_TABLE_INBOX) (arrived w)\<rparr>)
      else
        (Blocks,
         w\<lparr>calls := calls w @
              [Send (comm_id oc) requested_rank REQUEST_POINT_FROM_TABLE_OUTBOX
                 (PointRequestMessage (rank oc) point_id),
               Recv (comm_id ic) (rank oc) RECEIVE_POINT_FROM_TABLE_INBOX]\<rparr>))"
  by (simp add: get_def send_def recv_def Let_def split: option.splits prod.splits)

theorem get_remote_exchange_witness:
  "rank \<lparr>comm_id = 0, rank = 2, size_c = 4\<rparr> \<noteq> 0 \<and>
   get \<lparr>comm_id = 0, rank = 2, size_c = 4\<rparr> \<lparr>comm_id = 1, rank = 2, size_c = 4\<rparr> 0 7 []
     \<lparr>table_inbox_' = Some \<lparr>inbox_n_attributes = 3, staged = [((0, 7), [1, 2, 3])]\<rparr>,
      table_outbox_' = Some TableOutbox_new,
      owned_table_' = Some \<lparr>points = [[4, 5, 6]], n_attributes = 3\<rparr>,
      local_n_entries_' = Some [10, 1, 1, 1],
      global_tree_' = None,
      global_tree_leaf_nodes_' = [],
      table_outbox_group_comm_size_' = 4\<rparr>
     \<lparr>calls = [], arrived = [(1, 2, RECEIVE_POINT_FROM_TABLE_INBOX)]\<rparr> =
   (Returns [1, 2, 3],
    \<lparr>calls = [Send 0 0 REQUEST_POINT_FROM_TABLE_OUTBOX (PointRequestMessage 2 7),
              Recv 1 2 RECEIVE_POINT_FROM_TABLE_INBOX],
     arrived = []\<rparr>)"
  using get_remote_exchange
    [of "\<lparr>comm_id = 0, rank = 2, size_c = 4\<rparr>" 0 "\<lparr>comm_id = 1, rank = 2, size_c = 4\<rparr>" 7 "[]"
      "\<lparr>table_inbox_' = Some \<lparr>inbox_n_attributes = 3, staged = [((0, 7), [1, 2, 3])]\<rparr>,
        table_outbox_' = Some TableOutbox_new,
        owned_table_' = Some \<lparr>points = [[4, 5, 6]], n_attributes = 3\<rparr>,
        local_n_entries_' = Some [10, 1, 1, 1],
        global_tree_' = None,
        global_tree_leaf_nodes_' = [],
        table_outbox_group_comm_size_' = 4\<rparr>"
      "\<lparr>calls = [], arrived = [(1, 2, RECEIVE_POINT_FROM_TABLE_INBOX)]\<rparr>"]
  by (simp add: get_point_def Alias_def)

text \<open>
  The claim as it was stated fails: the process of rank 2 asks for point 7 of rank 0
  while an acknowledgment from rank 0, the owner, has arrived on the inbox communicator.
  The receive that \<open>get\<close> makes names rank 2 as its source, so that acknowledgment is not
  taken, nothing is aliased and \<open>get\<close> stays in the receive.
\<close>

theorem get_receives_from_owner_counterexample:
  "get \<lparr>comm_id = 0, rank = 2, size_c = 4\<rparr> \<lparr>comm_id = 1, rank = 2, size_c = 4\<rparr> 0 7 []
     \<lparr>table_inbox_' = Some \<lparr>inbox_n_attributes = 3, staged = [((0, 7), [1, 2, 3])]\<rparr>,
      table_outbox_' = Some TableOutbox_new,
      owned_table_' = Some \<lparr>points = [[4, 5, 6]], n_attributes = 3\<rparr>,
      local_n_entries_' = Some [10, 1, 1, 1],
      global_tree_' = None,
      global_tree_leaf_nodes_' = [],
      table_outbox_group_comm_size_' = 4\<rparr>
     \<lparr>calls = [], arrived = [(1, 0, RECEIVE_POINT_FROM_TABLE_INBOX)]\<rparr> =
   (Blocks,
    \<lparr>calls = [Send 0 0 REQUEST_POINT_FROM_TABLE_OUTBOX (PointRequestMessage 2 7),
              Recv 1 2 RECEIVE_POINT_FROM_TABLE_INBOX],
     arrived = [(1, 0, RECEIVE_POINT_FROM_TABLE_INBOX)]\<rparr>) \<and>
   Recv 1 2 RECEIVE_POINT_FROM_TABLE_INBOX \<noteq> Recv 1 0 RECEIVE_POINT_FROM_TABLE_INBOX"
  by (simp add: get_def send_def recv_def Let_def)

text \<open>
  C8. The branch of \<open>get\<close> for a point already fetched has the condition \<open>false\<close>. For
  every table and every world, so whatever the inbox holds and whatever was fetched
  before, a \<open>get\<close> of a point of another rank makes the send and the receive; a second
  \<open>get\<close> of the same rank and point id makes them again.
\<close>

theorem get_remote_never_cached:
  "rank oc \<noteq> requested_rank \<Longrightarrow>
   calls (snd (get oc ic requested_rank point_id entry t w)) =
     calls w @
       [Send (comm_id oc) requested_rank REQUEST_POINT_FROM_TABLE_OUTBOX
          (PointRequestMessage (rank oc) point_id),
        Recv (comm_id ic) (rank oc) RECEIVE_POINT_FROM_TABLE_INBOX] \<and>
   calls (snd (get oc ic requested_rank point_id entry' t'
                 (snd (get oc ic requested_rank point_id entry t w)))) =
     calls w @
       [Send (comm_id oc) requested_rank REQUEST_POINT_FROM_TABLE_OUTBOX
          (PointRequestMessage (rank oc) point_id),
        Recv (comm_id ic) (rank oc) RECEIVE_POINT_FROM_TABLE_INBOX,
        Send (comm_id oc) requested_rank REQUEST_POINT_FROM_TABLE_OUTBOX
          (PointRequestMessage (rank oc) point_id),
        Recv (comm_id ic) (rank oc) RECEIVE_POINT_FROM_TABLE_INBOX]"
proof -
  assume remote: "rank oc \<noteq> requested_rank"
  have once: "calls (snd (get oc ic requested_rank point_id e u v)) =
      calls v @
        [Send (comm_id oc) requested_rank REQUEST_POINT_FROM_TABLE_OUTBOX
           (PointRequestMessage (rank oc) point_id),
         Recv (comm_id ic) (rank oc) RECEIVE_POINT_FROM_TABLE_INBOX]" for e u v
    using remote
    by (simp add: get_def send_def recv_def Let_def split: option.splits prod.splits)
  show ?thesis
    by (simp add: once)
qed

theorem get_remote_never_cached_witness:
  "rank \<lparr>comm_id = 0, rank = 2, size_c = 4\<rparr> \<noteq> 0 \<and>
   calls (snd (get \<lparr>comm_id = 0, rank = 2, size_c = 4\<rparr> \<lparr>comm_id = 1, rank = 2, size_c = 4\<rparr>
       0 7 [1, 2, 3]
       \<lparr>table_inbox_' = Some \<lparr>inbox_n_attributes = 3, staged = [((0, 7), [1, 2, 3])]\<rparr>,
        table_outbox_' = Some TableOutbox_new,
        owned_table_' = Some \<lparr>points = [[4, 5, 6]], n_attributes = 3\<rparr>,
        local_n_entries_' = Some [10, 1, 1, 1],
        global_tree_' = None,
        global_tree_leaf_nodes_' = [],
        table_outbox_group_comm_size_' = 4\<rparr>
       \<lparr>calls = [Send 0 0 REQUEST_POINT_FROM_TABLE_OUTBOX (PointRequestMessage 2 7),
                 Recv 1 2 RECEIVE_POINT_FROM_TABLE_INBOX],
        arrived = [(1, 2, RECEIVE_POINT_FROM_TABLE_INBOX)]\<rparr>)) =
     [Send 0 0 REQUEST_POINT_FROM_TABLE_OUTBOX (PointRequestMessage 2 7),
      Recv 1 2 RECEIVE_POINT_FROM_TABLE_INBOX,
      Send 0 0 REQUEST_POINT_FROM_TABLE_OUTBOX (PointRequestMessage 2 7),
      Recv 1 2 RECEIVE_POINT_FROM_TABLE_INBOX]"
  using get_remote_never_cached
    [of "\<lparr>comm_id = 0, rank = 2, size_c = 4\<rparr>" 0 "\<lparr>comm_id = 1, rank = 2, size_c = 4\<rparr>" 7
      "[1, 2, 3]"
      "\<lparr>table_inbox_' = Some \<lparr>inbox_n_attributes = 3, staged = [((0, 7), [1, 2, 3])]\<rparr>,
        table_outbox_' = Some TableOutbox_new,
        owned_table_' = Some \<lparr>points = [[4, 5, 6]], n_attributes = 3\<rparr>,
        local_n_entries_' = Some [10, 1, 1, 1],
        global_tree_' = None,
        global_tree_leaf_nodes_' = [],
        table_outbox_group_comm_size_' = 4\<rparr>"
      "\<lparr>calls = [Send 0 0 REQUEST_POINT_FROM_TABLE_OUTBOX (PointRequestMessage 2 7),
                 Recv 1 2 RECEIVE_POINT_FROM_TABLE_INBOX],
        arrived = [(1, 2, RECEIVE_POINT_FROM_TABLE_INBOX)]\<rparr>"]
  by simp

subsection \<open>Reading a point of the calling process\<close>

text \<open>
  C3. A \<open>get\<close> whose requested rank is the rank of the caller returns what the owned
  table's \<open>get\<close> gives for the point id, and the world is as before: no call was made on
  a communicator and no arrived message was taken.
\<close>

theorem get_local_no_messages:
  "rank oc = requested_rank \<Longrightarrow>
   get oc ic requested_rank point_id entry t w =
     ((case owned_table_' t of
         None \<Rightarrow> Fatal NullDereference
       | Some tbl \<Rightarrow> Table_get tbl point_id), w)"
  by (simp add: get_def split: option.splits)

theorem get_local_no_messages_witness:
  "rank \<lparr>comm_id = 0, rank = 2, size_c = 4\<rparr> = 2 \<and>
   get \<lparr>comm_id = 0, rank = 2, size_c = 4\<rparr> \<lparr>comm_id = 1, rank = 2, size_c = 4\<rparr> 2 1 []
     \<lparr>table_inbox_' = Some \<lparr>inbox_n_attributes = 3, staged = []\<rparr>,
      table_outbox_' = Some TableOutbox_new,
      owned_table_' = Some \<lparr>points = [[4, 5, 6], [7, 8, 9]], n_attributes = 3\<rparr>,
      local_n_entries_' = Some [10, 1, 2, 1],
      global_tree_' = None,
      global_tree_leaf_nodes_' = [],
      table_outbox_group_comm_size_' = 4\<rparr>
     \<lparr>calls = [], arrived = [(1, 2, RECEIVE_POINT_FROM_TABLE_INBOX)]\<rparr> =
   (Returns [7, 8, 9],
    \<lparr>calls = [], arrived = [(1, 2, RECEIVE_POINT_FROM_TABLE_INBOX)]\<rparr>)"
  using get_local_no_messages
    [of "\<lparr>comm_id = 0, rank = 2, size_c = 4\<rparr>" 2 "\<lparr>comm_id = 1, rank = 2, size_c = 4\<rparr>" 1 "[]"
      "\<lparr>table_inbox_' = Some \<lparr>inbox_n_attributes = 3, staged = []\<rparr>,
        table_outbox_' = Some TableOutbox_new,
        owned_table_' = Some \<lparr>points = [[4, 5, 6], [7, 8, 9]], n_attributes = 3\<rparr>,
        local_n_entries_' = Some [10, 1, 2, 1],
        global_tree_' = None,
        global_tree_leaf_nodes_' = [],
        table_outbox_group_comm_size_' = 4\<rparr>"
      "\<lparr>calls = [], arrived = [(1, 2, RECEIVE_POINT_FROM_TABLE_INBOX)]\<rparr>"]
  by (simp add: Table_get_def n_entries_def)

subsection \<open>Entry counts of a rank\<close>

text \<open>
  C4. For every rank that is not below the size of the group, \<open>local_n_entries(rank)\<close>
  does not read the array of entry counts: it prints the line "Invalid rank specified"
  with the rank and the limit, and returns \<open>-1\<close>.
\<close>

theorem local_n_entries_invalid_rank:
  "rank_in \<ge> table_outbox_group_comm_size_' t \<Longrightarrow>
   local_n_entries t rank_in =
     Returns ([Invalid_rank_specified rank_in (table_outbox_group_comm_size_' t)], - 1)"
  by (simp add: local_n_entries_def)

theorem local_n_entries_invalid_rank_witness:
  "(4::int) \<ge> table_outbox_group_comm_size_'
      \<lparr>table_inbox_' = Some \<lparr>inbox_n_attributes = 3, staged = []\<rparr>,
       table_outbox_' = Some TableOutbox_new,
       owned_table_' = Some \<lparr>points = [[4, 5, 6], [7, 8, 9]], n_attributes = 3\<rparr>,
       local_n_entries_' = Some [10, 1, 2, 1],
       global_tree_' = None,
       global_tree_leaf_nodes_' = [],
       table_outbox_group_comm_size_' = 4\<rparr> \<and>
   local_n_entries
      \<lparr>table_inbox_' = Some \<lparr>inbox_n_attributes = 3, staged = []\<rparr>,
       table_outbox_' = Some TableOutbox_new,
       owned_table_' = Some \<lparr>points = [[4, 5, 6], [7, 8, 9]], n_attributes = 3\<rparr>,
       local_n_entries_' = Some [10, 1, 2, 1],
       global_tree_' = None,
       global_tree_leaf_nodes_' = [],
       table_outbox_group_comm_size_' = 4\<rparr> 4 =
     Returns ([Invalid_rank_specified 4 4], - 1)"
  using local_n_entries_invalid_rank
    [of "\<lparr>table_inbox_' = Some \<lparr>inbox_n_attributes = 3, staged = []\<rparr>,
       table_outbox_' = Some TableOutbox_new,
       owned_table_' = Some \<lparr>points = [[4, 5, 6], [7, 8, 9]], n_attributes = 3\<rparr>,
       local_n_entries_' = Some [10, 1, 2, 1],
       global_tree_' = None,
       global_tree_leaf_nodes_' = [],
       table_outbox_group_comm_size_' = 4\<rparr>" 4]
  by simp

subsection \<open>Save\<close>

text \<open>
  C9. For every table, every state of the files and every file name, \<open>Save\<close> returns
  the table and the files as they were: no field of the table changes and nothing is
  written.
\<close>

theorem Save_no_op:
  "Save file_name (t, fs) = (t, fs)"
  by (simp add: Save_def)

subsection \<open>Point ids out of range\<close>




subsection \<open>The sum of the entry counts\<close>

text \<open>
  C7. In a job where every rank has constructed its table and completed \<open>Init\<close> on its
  own file, the table of every rank \<open>p\<close> answers \<open>local_n_entries(r)\<close> for every rank \<open>r\<close>
  of the group with an entry count and no diagnostic, and the sum of these counts over
  all ranks is the number of points loaded by all the ranks together. This holds for
  every way the points are spread over the files, so for a single process and for one
  process that owns all the points too.
\<close>

theorem entry_counts_sum_to_total:
  "p < length file_names \<Longrightarrow>
   \<exists>t counts.
     Init_in_job load file_names p = Returns t \<and>
     length counts = length file_names \<and>
     (\<forall>r < length file_names. local_n_entries t (int r) = Returns ([], counts ! r)) \<and>
     sum_list counts = (\<Sum>f\<leftarrow>file_names. int (length (points (load f))))"
proof -
  assume p: "p < length file_names"
  define n where "n = length file_names"
  define counts where "counts = map (\<lambda>r. n_entries (load (file_names ! r))) [0..<n]"
  obtain t where t: "Init_in_job load file_names p = Returns t"
    by (simp add: Init_in_job_def Init_def Let_def)
  have size: "table_outbox_group_comm_size_' t = int n"
    and array: "local_n_entries_' t =
      Some (all_gather \<lparr>comm_id = 0, rank = int p, size_c = int n\<rparr>
              (\<lambda>r. n_entries (load (file_names ! nat r)))
              (n_entries (load (file_names ! p))))"
    using Init_Returns [OF t [unfolded Init_in_job_def]] by (simp_all add: n_def)
  have gathered: "all_gather \<lparr>comm_id = 0, rank = int p, size_c = int n\<rparr>
      (\<lambda>r. n_entries (load (file_names ! nat r))) (n_entries (load (file_names ! p))) = counts"
    by (simp add: all_gather_def counts_def)
  have len: "length counts = length file_names"
    by (simp add: counts_def n_def)
  have array_counts: "local_n_entries_' t = Some counts"
    using array gathered by simp
  have each: "local_n_entries t (int r) = Returns ([], counts ! r)" if "r < length file_names" for r
    using that len size [unfolded n_def] by (simp add: local_n_entries_def array_counts)
  have "counts = map (\<lambda>f. int (length (points (load f)))) (map (\<lambda>r. file_names ! r) [0..<n])"
    by (simp add: counts_def n_entries_def)
  also have "map (\<lambda>r. file_names ! r) [0..<n] = file_names"
    unfolding n_def by (rule map_nth)
  finally have total: "sum_list counts = (\<Sum>f\<leftarrow>file_names. int (length (points (load f))))"
    by simp
  from t len each total show ?thesis
    by blast
qed

theorem entry_counts_sum_to_total_witness:
  "(0::nat) < length [''all'', ''none''] \<and>
   (\<exists>t counts.
     Init_in_job
       (\<lambda>f. if f = ''all'' then \<lparr>points = [[1, 2], [3, 4], [5, 6]], n_attributes = 2\<rparr>
            else \<lparr>points = [], n_attributes = 2\<rparr>)
       [''all'', ''none''] 0 = Returns t \<and>
     length counts = length [''all'', ''none''] \<and>
     (\<forall>r < length [''all'', ''none'']. local_n_entries t (int r) = Returns ([], counts ! r)) \<and>
     sum_list counts = 3)"
proof -
  have h: "(0::nat) < length [''all'', ''none'']"
    by simp
  show ?thesis
    using h
      entry_counts_sum_to_total
        [OF h, of "\<lambda>f. if f = ''all'' then \<lparr>points = [[1, 2], [3, 4], [5, 6]], n_attributes = 2\<rparr>
            else \<lparr>points = [], n_attributes = 2\<rparr>"]
    by simp
qed

subsection \<open>The destructor\<close>

text \<open>
  C6 (as amended). A destructor that completes releases the objects whose handles are
  not null in this order: the Outbox first, then the Inbox, then the array of entry
  counts, then the owned table, then the tree. So after any number of the releases, if
  the owned table has been released then the Inbox was null or has been released too:
  the Inbox is at no point alive after the partition behind it has been freed.
\<close>

theorem destructor_release_order:
  "destructor g t = Returns (rs, t') \<Longrightarrow>
   map released rs =
     filter (\<lambda>h. \<not> is_null t h)
       [Table_outbox, Table_inbox, Local_n_entries, Owned_table, Global_tree] \<and>
   (\<forall>k. Owned_table \<in> set (map released (take k rs)) \<longrightarrow>
        is_null t Table_inbox \<or> Table_inbox \<in> set (map released (take k rs)))"
proof -
  assume ret: "destructor g t = Returns (rs, t')"
  have order: "map released rs =
      filter (\<lambda>h. \<not> is_null t h)
        [Table_outbox, Table_inbox, Local_n_entries, Owned_table, Global_tree]"
    using destructor_Returns [OF ret] by simp
  have inbox_first: "is_null t Table_inbox \<or> Table_inbox \<in> set (map released (take k rs))"
    if owned: "Owned_table \<in> set (map released (take k rs))" for k
  proof (cases "is_null t Table_inbox")
    case True
    then show ?thesis by simp
  next
    case False
    have "map released (take k rs) =
        take k (filter (\<lambda>h. \<not> is_null t h)
          [Table_outbox, Table_inbox, Local_n_entries, Owned_table, Global_tree])"
      by (simp only: order [symmetric] take_map)
    with owned False show ?thesis
      by (auto simp: take_Cons' split: if_splits)
  qed
  from order inbox_first show ?thesis
    by blast
qed

theorem destructor_release_order_witness:
  "destructor True
     \<lparr>table_inbox_' = Some \<lparr>inbox_n_attributes = 3, staged = []\<rparr>,
      table_outbox_' = Some TableOutbox_new,
      owned_table_' = Some \<lparr>points = [[1, 2, 3]], n_attributes = 3\<rparr>,
      local_n_entries_' = Some [1],
      global_tree_' = Some TreeLeaf,
      global_tree_leaf_nodes_' = [],
      table_outbox_group_comm_size_' = 1\<rparr> =
   Returns
     ([DestroyPtr Table_outbox, DestroyPtr Table_inbox, Deallocate Local_n_entries,
       DestroyPtr Owned_table, Delete Global_tree],
      \<lparr>table_inbox_' = None,
       table_outbox_' = None,
       owned_table_' = None,
       local_n_entries_' = None,
       global_tree_' = None,
       global_tree_leaf_nodes_' = [],
       table_outbox_group_comm_size_' = 1\<rparr>) \<and>
   Owned_table \<in> set (map released (take 4
        [DestroyPtr Table_outbox, DestroyPtr Table_inbox, Deallocate Local_n_entries,
         DestroyPtr Owned_table, Delete Global_tree])) \<and>
   Table_inbox \<in> set (map released (take 4
        [DestroyPtr Table_outbox, DestroyPtr Table_inbox, Deallocate Local_n_entries,
         DestroyPtr Owned_table, Delete Global_tree]))"
proof -
  have ret: "destructor True
     \<lparr>table_inbox_' = Some \<lparr>inbox_n_attributes = 3, staged = []\<rparr>,
      table_outbox_' = Some TableOutbox_new,
      owned_table_' = Some \<lparr>points = [[1, 2, 3]], n_attributes = 3\<rparr>,
      local_n_entries_' = Some [1],
      global_tree_' = Some TreeLeaf,
      global_tree_leaf_nodes_' = [],
      table_outbox_group_comm_size_' = 1\<rparr> =
   Returns
     ([DestroyPtr Table_outbox, DestroyPtr Table_inbox, Deallocate Local_n_entries,
       DestroyPtr Owned_table, Delete Global_tree],
      \<lparr>table_inbox_' = None,
       table_outbox_' = None,
       owned_table_' = None,
       local_n_entries_' = None,
       global_tree_' = None,
       global_tree_leaf_nodes_' = [],
       table_outbox_group_comm_size_' = 1\<rparr>)"
    by (simp add: destructor_defs)
  have owned: "Owned_table \<in> set (map released (take 4
        [DestroyPtr Table_outbox, DestroyPtr Table_inbox, Deallocate Local_n_entries,
         DestroyPtr Owned_table, Delete Global_tree]))"
    by simp
  have live: "\<not> is_null
     \<lparr>table_inbox_' = Some \<lparr>inbox_n_attributes = 3, staged = []\<rparr>,
      table_outbox_' = Some TableOutbox_new,
      owned_table_' = Some \<lparr>points = [[1, 2, 3]], n_attributes = 3\<rparr>,
      local_n_entries_' = Some [1],
      global_tree_' = Some TreeLeaf,
      global_tree_leaf_nodes_' = [],
      table_outbox_group_comm_size_' = 1\<rparr> Table_inbox"
    by simp
  have "Table_inbox \<in> set (map released (take 4
        [DestroyPtr Table_outbox, DestroyPtr Table_inbox, Deallocate Local_n_entries,
         DestroyPtr Owned_table, Delete Global_tree]))"
    using destructor_release_order [OF ret] owned live by blast
  with ret owned show ?thesis
    by blast
qed

text \<open>
  The claim as it was stated fails: on the table of a single process after \<open>Init\<close>, the
  destructor releases the Outbox first and the Inbox second.
\<close>

theorem destructor_inbox_first_counterexample:
  "Init True (\<lambda>f. \<lparr>points = [[1, 2, 3]], n_attributes = 3\<rparr>) (\<lambda>r. 1) ''points''
      \<lparr>comm_id = 0, rank = 0, size_c = 1\<rparr> DistributedTable_new =
     Returns
       \<lparr>table_inbox_' = Some \<lparr>inbox_n_attributes = 3, staged = []\<rparr>,
        table_outbox_' = Some TableOutbox_new,
        owned_table_' = Some \<lparr>points = [[1, 2, 3]], n_attributes = 3\<rparr>,
        local_n_entries_' = Some [1],
        global_tree_' = None,
        global_tree_leaf_nodes_' = [],
        table_outbox_group_comm_size_' = 1\<rparr> \<and>
   destructor True
     \<lparr>table_inbox_' = Some \<lparr>inbox_n_attributes = 3, staged = []\<rparr>,
      table_outbox_' = Some TableOutbox_new,
      owned_table_' = Some \<lparr>points = [[1, 2, 3]], n_attributes = 3\<rparr>,
      local_n_entries_' = Some [1],
      global_tree_' = None,
      global_tree_leaf_nodes_' = [],
      table_outbox_group_comm_size_' = 1\<rparr> =
   Returns
     ([DestroyPtr Table_outbox, DestroyPtr Table_inbox, Deallocate Local_n_entries,
       DestroyPtr Owned_table],
      \<lparr>table_inbox_' = None,
       table_outbox_' = None,
       owned_table_' = None,
       local_n_entries_' = None,
       global_tree_' = None,
       global_tree_leaf_nodes_' = [],
       table_outbox_group_comm_size_' = 1\<rparr>) \<and>
   map released
     [DestroyPtr Table_outbox, DestroyPtr Table_inbox, Deallocate Local_n_entries,
      DestroyPtr Owned_table] \<noteq>
     [Table_inbox, Table_outbox, Local_n_entries, Owned_table]"
  by (simp add: Init_def Let_def DistributedTable_new_def TableInbox_Init_def
      TableInbox_new_def all_gather_def n_entries_def destructor_defs)

text \<open>
  C10. A deallocation is made only for a handle that is not null: a destructor that
  completes releases exactly the objects whose handles were not null, each once, and
  leaves all five handles null and the other fields as they were. On a table that was
  constructed and on which \<open>Init\<close> was never called it releases nothing and completes,
  whether or not there is a memory-mapped file.
\<close>

theorem destructor_null_guards:
  "destructor g DistributedTable_new = Returns ([], DistributedTable_new) \<and>
   (destructor g t = Returns (rs, t') \<longrightarrow>
      (\<forall>h. is_null t' h) \<and>
      t' = t\<lparr>table_outbox_' := None, table_inbox_' := None, local_n_entries_' := None,
             owned_table_' := None, global_tree_' := None\<rparr> \<and>
      distinct (map released rs) \<and>
      (\<forall>h. h \<in> set (map released rs) \<longleftrightarrow> \<not> is_null t h))"
proof -
  have fresh: "destructor g DistributedTable_new = Returns ([], DistributedTable_new)"
    by (simp add: destructor_defs DistributedTable_new_def)
  have general: "(\<forall>h. is_null t' h) \<and>
      t' = t\<lparr>table_outbox_' := None, table_inbox_' := None, local_n_entries_' := None,
             owned_table_' := None, global_tree_' := None\<rparr> \<and>
      distinct (map released rs) \<and>
      (\<forall>h. h \<in> set (map released rs) \<longleftrightarrow> \<not> is_null t h)"
    if ret: "destructor g t = Returns (rs, t')"
  proof -
    have state: "t' = t\<lparr>table_outbox_' := None, table_inbox_' := None,
        local_n_entries_' := None, owned_table_' := None, global_tree_' := None\<rparr>"
      and order: "map released rs =
        filter (\<lambda>h. \<not> is_null t h)
          [Table_outbox, Table_inbox, Local_n_entries, Owned_table, Global_tree]"
      using destructor_Returns [OF ret] by simp_all
    have nulls: "is_null t' h" for h
      by (cases h) (simp_all add: state)
    have all_handles: "h \<in> set [Table_outbox, Table_inbox, Local_n_entries, Owned_table, Global_tree]" for h
      by (cases h) simp_all
    have exact: "h \<in> set (map released rs) \<longleftrightarrow> \<not> is_null t h" for h
      unfolding order using all_handles [of h] by (simp only: set_filter) blast
    have once: "distinct (map released rs)"
      unfolding order by (rule distinct_filter) simp
    from nulls state once exact show ?thesis
      by blast
  qed
  from fresh general show ?thesis
    by blast
qed

theorem destructor_null_guards_witness:
  "destructor False
     \<lparr>table_inbox_' = None,
      table_outbox_' = None,
      owned_table_' = Some \<lparr>points = [[1, 2, 3]], n_attributes = 3\<rparr>,
      local_n_entries_' = None,
      global_tree_' = None,
      global_tree_leaf_nodes_' = [],
      table_outbox_group_comm_size_' = - 1\<rparr> =
   Returns
     ([Delete Owned_table],
      \<lparr>table_inbox_' = None,
       table_outbox_' = None,
       owned_table_' = None,
       local_n_entries_' = None,
       global_tree_' = None,
       global_tree_leaf_nodes_' = [],
       table_outbox_group_comm_size_' = - 1\<rparr>) \<and>
   (\<forall>h. is_null
      \<lparr>table_inbox_' = None,
       table_outbox_' = None,
       owned_table_' = None,
       local_n_entries_' = None,
       global_tree_' = None,
       global_tree_leaf_nodes_' = [],
       table_outbox_group_comm_size_' = - 1\<rparr> h) \<and>
   destructor False DistributedTable_new = Returns ([], DistributedTable_new)"
proof -
  have ret: "destructor False
     \<lparr>table_inbox_' = None,
      table_outbox_' = None,
      owned_table_' = Some \<lparr>points = [[1, 2, 3]], n_attributes = 3\<rparr>,
      local_n_entries_' = None,
      global_tree_' = None,
      global_tree_leaf_nodes_' = [],
      table_outbox_group_comm_size_' = - 1\<rparr> =
   Returns
     ([Delete Owned_table],
      \<lparr>table_inbox_' = None,
       table_outbox_' = None,
       owned_table_' = None,
       local_n_entries_' = None,
       global_tree_' = None,
       global_tree_leaf_nodes_' = [],
       table_outbox_group_comm_size_' = - 1\<rparr>)"
    by (simp add: destructor_defs)
  show ?thesis
    using ret
      destructor_null_guards
        [of False
          "\<lparr>table_inbox_' = None,
            table_outbox_' = None,
            owned_table_' = Some \<lparr>points = [[1, 2, 3]], n_attributes = 3\<rparr>,
            local_n_entries_' = None,
            global_tree_' = None,
            global_tree_leaf_nodes_' = [],
            table_outbox_group_comm_size_' = - 1\<rparr>"
          "[Delete Owned_table]"
          "\<lparr>table_inbox_' = None,
            table_outbox_' = None,
            owned_table_' = None,
            local_n_entries_' = None,
            global_tree_' = None,
            global_tree_leaf_nodes_' = [],
            table_outbox_group_comm_size_' = - 1\<rparr>"]
    by blast
qed

end
